theory Spec2Isabelle
  imports Main
begin

section \<open>The libStorage driver contract\<close>

text \<open>
  The repository consists of two declarations: the interface \<open>Driver\<close> of
  \<^verbatim>\<open>driver/driver.go\<close> (with the constructor type \<open>NewDriver\<close>) and the
  package-level value \<open>NextDeviceInfo\<close> of
  \<^verbatim>\<open>drivers/storage/s3fs/utils/utils_unix.go\<close>. Neither file has a function
  body. An interface is its method set, so the model of \<open>Driver\<close> is the list of its
  method signatures, in the order of the source, each with the names and types of its
  parameters and the types of its results.
\<close>

subsection \<open>Go types that the declarations mention\<close>

text \<open>
  \<open>GoNamed p n\<close> is the type \<open>n\<close> of package \<open>p\<close> (\<^verbatim>\<open>model.Volume\<close>,
  \<^verbatim>\<open>context.Context\<close>); \<open>GoPtr\<close> is \<^verbatim>\<open>*T\<close>, \<open>GoSlice\<close> is \<^verbatim>\<open>[]T\<close>, and
  \<open>GoFunc\<close> is \<^verbatim>\<open>func(params) results\<close>.
\<close>

datatype gotype =
    GoString
  | GoInt64
  | GoByte
  | GoError
  | GoNamed string string
  | GoPtr gotype
  | GoSlice gotype
  | GoFunc "(string \<times> gotype) list" "gotype list"

abbreviation context_Context :: gotype where
  "context_Context \<equiv> GoNamed ''context'' ''Context''"

abbreviation model_BlockDevice :: gotype where
  "model_BlockDevice \<equiv> GoNamed ''model'' ''BlockDevice''"

abbreviation model_Instance :: gotype where
  "model_Instance \<equiv> GoNamed ''model'' ''Instance''"

abbreviation model_Volume :: gotype where
  "model_Volume \<equiv> GoNamed ''model'' ''Volume''"

abbreviation model_VolumeAttachment :: gotype where
  "model_VolumeAttachment \<equiv> GoNamed ''model'' ''VolumeAttachment''"

abbreviation model_Snapshot :: gotype where
  "model_Snapshot \<equiv> GoNamed ''model'' ''Snapshot''"



subsection \<open>The interface \<open>Driver\<close>\<close>

record method_decl =
  mname :: string
  params :: "(string \<times> gotype) list"
  results :: "gotype list"

text \<open>\<^verbatim>\<open>type Driver interface { ... }\<close>, driver.go lines 14 to 122.\<close>

definition Driver :: "method_decl list" where
  "Driver =
    [ \<lparr>mname = ''Name'', params = [], results = [GoString]\<rparr>,
      \<lparr>mname = ''Init'', params = [], results = [GoError]\<rparr>,
      \<lparr>mname = ''GetVolumeMapping'',
       params = [(''ctx'', context_Context)],
       results = [GoSlice (GoPtr model_BlockDevice), GoError]\<rparr>,
      \<lparr>mname = ''GetInstance'',
       params = [(''ctx'', context_Context)],
       results = [GoPtr model_Instance, GoError]\<rparr>,
      \<lparr>mname = ''GetVolume'',
       params = [(''ctx'', context_Context), (''volumeID'', GoString),
                 (''volumeName'', GoString)],
       results = [GoSlice (GoPtr model_Volume), GoError]\<rparr>,
      \<lparr>mname = ''GetVolumeAttach'',
       params = [(''ctx'', context_Context), (''volumeID'', GoString)],
       results = [GoSlice (GoPtr model_VolumeAttachment), GoError]\<rparr>,
      \<lparr>mname = ''CreateSnapshot'',
       params = [(''ctx'', context_Context), (''snapshotName'', GoString),
                 (''volumeID'', GoString), (''description'', GoString)],
       results = [GoSlice (GoPtr model_Snapshot), GoError]\<rparr>,
      \<lparr>mname = ''GetSnapshot'',
       params = [(''ctx'', context_Context), (''volumeID'', GoString),
                 (''snapshotID'', GoString), (''snapshotName'', GoString)],
       results = [GoSlice (GoPtr model_Snapshot), GoError]\<rparr>,
      \<lparr>mname = ''RemoveSnapshot'',
       params = [(''ctx'', context_Context), (''snapshotID'', GoString)],
       results = [GoError]\<rparr>,
      \<lparr>mname = ''CreateVolume'',
       params = [(''ctx'', context_Context), (''volumeName'', GoString),
                 (''volumeID'', GoString), (''snapshotID'', GoString),
                 (''volumeType'', GoString), (''IOPS'', GoInt64), (''size'', GoInt64),
                 (''availabilityZone'', GoString)],
       results = [GoPtr model_Volume, GoError]\<rparr>,
      \<lparr>mname = ''RemoveVolume'',
       params = [(''ctx'', context_Context), (''volumeID'', GoString)],
       results = [GoError]\<rparr>,
      \<lparr>mname = ''GetDeviceNextAvailable'', params = [], results = [GoString, GoError]\<rparr>,
      \<lparr>mname = ''AttachVolume'',
       params = [(''ctx'', context_Context), (''nextDeviceName'', GoString),
                 (''volumeID'', GoString)],
       results = [GoSlice (GoPtr model_VolumeAttachment), GoError]\<rparr>,
      \<lparr>mname = ''DetachVolume'',
       params = [(''ctx'', context_Context), (''volumeID'', GoString)],
       results = [GoError]\<rparr>,
      \<lparr>mname = ''CopySnapshot'',
       params = [(''ctx'', context_Context), (''volumeID'', GoString),
                 (''snapshotID'', GoString), (''snapshotName'', GoString),
                 (''destinationSnapshotName'', GoString),
                 (''destinationRegion'', GoString)],
       results = [GoPtr model_Snapshot, GoError]\<rparr>,
      \<lparr>mname = ''GetClientToolName'',
       params = [(''ctx'', context_Context)],
       results = [GoString, GoError]\<rparr>,
      \<lparr>mname = ''GetClientTool'',
       params = [(''ctx'', context_Context)],
       results = [GoSlice GoByte, GoError]\<rparr> ]"


subsection \<open>Reading the declarations\<close>

definition method_named :: "string \<Rightarrow> method_decl option" where
  "method_named n = find (\<lambda>m. mname m = n) Driver"

definition params_of :: "string \<Rightarrow> (string \<times> gotype) list option" where
  "params_of n = map_option params (method_named n)"

definition results_of :: "string \<Rightarrow> gotype list option" where
  "results_of n = map_option results (method_named n)"

text \<open>A method takes a request context when one of its parameters is a \<^verbatim>\<open>context.Context\<close>.\<close>

definition takes_context :: "method_decl \<Rightarrow> bool" where
  "takes_context m = (context_Context \<in> set (map snd (params m)))"

text \<open>A result is a sequence when its type is a slice.\<close>

fun is_sequence :: "gotype \<Rightarrow> bool" where
  "is_sequence (GoSlice t) = True"
| "is_sequence t = False"

text \<open>The results of a method other than its \<^verbatim>\<open>error\<close>: the payload it returns.\<close>

definition payload :: "gotype list \<Rightarrow> gotype list" where
  "payload rs = filter (\<lambda>t. t \<noteq> GoError) rs"




subsection \<open>The S3FS device-naming value\<close>

text \<open>
  Modelled from the spec: the struct type \<^verbatim>\<open>types.NextDeviceInfo\<close>, which is declared
  in the package \<^verbatim>\<open>api/types\<close>, outside these two files. The spec describes it as
  a prefix, a pattern and an "ignore" flag; these are the three fields that the composite
  literal of utils_unix.go sets, with the types of the literals there.
\<close>

record types_NextDeviceInfo =
  Prefix :: string
  Pattern :: string
  Ignore :: bool

text \<open>\<^verbatim>\<open>var NextDeviceInfo = &types.NextDeviceInfo{...}\<close>, utils_unix.go lines 11 to 15.\<close>

definition NextDeviceInfo :: types_NextDeviceInfo where
  "NextDeviceInfo = \<lparr>Prefix = '''', Pattern = '''', Ignore = True\<rparr>"

text \<open>
  The first line of utils_unix.go is the build constraint \<^verbatim>\<open>// +build !windows\<close>:
  the file is part of the package when the target operating system (\<^verbatim>\<open>GOOS\<close>) is
  not \<^verbatim>\<open>windows\<close>.
\<close>

type_synonym goos = string

definition build_constraint :: "goos \<Rightarrow> bool" where
  "build_constraint os = (os \<noteq> ''windows'')"

text \<open>
  What utils_unix.go declares as \<open>NextDeviceInfo\<close> in a build for the operating
  system \<open>os\<close>: its value where the constraint admits the file, nothing elsewhere.
\<close>

definition utils_unix_NextDeviceInfo :: "goos \<Rightarrow> types_NextDeviceInfo option" where
  "utils_unix_NextDeviceInfo os = (if build_constraint os then Some NextDeviceInfo else None)"

section \<open>Properties of the declarations\<close>

subsection \<open>Shape of the interface\<close>

lemma Driver_length: "length Driver = 17"
  by (simp add: Driver_def)

lemma Driver_names_distinct: "distinct (map mname Driver)"
  by (simp add: Driver_def)

lemma GetVolume_signature:
  "params_of ''GetVolume'' =
     Some [(''ctx'', context_Context), (''volumeID'', GoString), (''volumeName'', GoString)]
   \<and> results_of ''GetVolume'' = Some [GoSlice (GoPtr model_Volume), GoError]
   \<and> map_option (map is_sequence \<circ> payload) (results_of ''GetVolume'') = Some [True]"
  by (simp add: params_of_def results_of_def method_named_def Driver_def payload_def)

lemma GetClientTool_signatures:
  "params_of ''GetClientToolName'' = Some [(''ctx'', context_Context)]
   \<and> results_of ''GetClientToolName'' = Some [GoString, GoError]
   \<and> params_of ''GetClientTool'' = Some [(''ctx'', context_Context)]
   \<and> results_of ''GetClientTool'' = Some [GoSlice GoByte, GoError]"
  by (simp add: params_of_def results_of_def method_named_def Driver_def)

subsection \<open>Construction and initialisation\<close>



subsection \<open>Request contexts\<close>

text \<open>
  Claim C9. The operations \<open>Name\<close>, \<open>Init\<close> and \<open>GetDeviceNextAvailable\<close> take no
  request context: they are exactly the methods of \<open>Driver\<close> without a
  \<^verbatim>\<open>context.Context\<close> parameter, and each of them has no parameter at all, so the
  contract gives a caller nothing through which a cancellation or a deadline could reach
  them. All the other operations, fourteen of them, take the context, as their first
  parameter \<open>ctx\<close>.
\<close>

theorem context_free_operations:
  "map mname (filter (\<lambda>m. \<not> takes_context m) Driver) =
     [''Name'', ''Init'', ''GetDeviceNextAvailable'']
   \<and> map params (filter (\<lambda>m. \<not> takes_context m) Driver) = [[], [], []]
   \<and> map mname (filter takes_context Driver) =
     [''GetVolumeMapping'', ''GetInstance'', ''GetVolume'', ''GetVolumeAttach'',
      ''CreateSnapshot'', ''GetSnapshot'', ''RemoveSnapshot'', ''CreateVolume'',
      ''RemoveVolume'', ''AttachVolume'', ''DetachVolume'', ''CopySnapshot'',
      ''GetClientToolName'', ''GetClientTool'']
   \<and> map (\<lambda>m. take 1 (params m)) (filter takes_context Driver) =
     replicate 14 [(''ctx'', context_Context)]"
  by (simp add: takes_context_def Driver_def eval_nat_numeral)

subsection \<open>Volume creation and removal\<close>

text \<open>
  Claim C3. \<open>CreateVolume\<close> takes, after the request context, the parameters
  \<open>volumeName\<close>, \<open>volumeID\<close> (the volume to clone), \<open>snapshotID\<close> (the snapshot to
  restore), \<open>volumeType\<close>, \<open>IOPS\<close>, \<open>size\<close> (in GB) and \<open>availabilityZone\<close>, the
  identifiers as strings and the two quantities as 64-bit integers. Besides the
  \<^verbatim>\<open>error\<close> it returns one \<^verbatim>\<open>*model.Volume\<close>: a single volume, not a sequence.
  The declaration says nothing on the state of that volume, so it may still be
  provisioning.
\<close>

theorem CreateVolume_single_volume:
  "map_option (map fst) (params_of ''CreateVolume'') =
     Some [''ctx'', ''volumeName'', ''volumeID'', ''snapshotID'', ''volumeType'', ''IOPS'',
           ''size'', ''availabilityZone'']
   \<and> map_option (map snd) (params_of ''CreateVolume'') =
     Some [context_Context, GoString, GoString, GoString, GoString, GoInt64, GoInt64,
           GoString]
   \<and> results_of ''CreateVolume'' = Some [GoPtr model_Volume, GoError]
   \<and> map_option payload (results_of ''CreateVolume'') = Some [GoPtr model_Volume]
   \<and> map_option (map is_sequence \<circ> payload) (results_of ''CreateVolume'') = Some [False]"
  by (simp add: params_of_def results_of_def method_named_def Driver_def payload_def)

text \<open>
  Claim C6. \<open>RemoveSnapshot\<close>, given a \<open>snapshotID\<close>, and \<open>RemoveVolume\<close>, given a
  \<open>volumeID\<close>, return nothing but the success-or-failure signal: the only result of
  each is an \<^verbatim>\<open>error\<close>, so a success carries no entity and a failure (the snapshot
  is absent, the volume is attached and cannot be removed) is returned as that value.
\<close>

theorem Remove_operations_return_only_error:
  "params_of ''RemoveSnapshot'' = Some [(''ctx'', context_Context), (''snapshotID'', GoString)]
   \<and> results_of ''RemoveSnapshot'' = Some [GoError]
   \<and> map_option payload (results_of ''RemoveSnapshot'') = Some []
   \<and> params_of ''RemoveVolume'' = Some [(''ctx'', context_Context), (''volumeID'', GoString)]
   \<and> results_of ''RemoveVolume'' = Some [GoError]
   \<and> map_option payload (results_of ''RemoveVolume'') = Some []"
  by (simp add: params_of_def results_of_def method_named_def Driver_def payload_def)

subsection \<open>Device naming for S3FS\<close>

text \<open>
  Claim C8. On every platform other than Windows, the \<open>NextDeviceInfo\<close> of the S3FS
  driver has the empty \<open>Prefix\<close>, the empty \<open>Pattern\<close> and \<open>Ignore\<close> set: device
  naming is switched off for S3FS in the Unix builds.
\<close>

theorem NextDeviceInfo_unix:
  "os \<noteq> ''windows'' \<Longrightarrow>
     utils_unix_NextDeviceInfo os = Some \<lparr>Prefix = '''', Pattern = '''', Ignore = True\<rparr>"
  by (simp add: utils_unix_NextDeviceInfo_def build_constraint_def NextDeviceInfo_def)

theorem NextDeviceInfo_unix_witness:
  "''linux'' \<noteq> ''windows''
   \<and> utils_unix_NextDeviceInfo ''linux'' =
       Some \<lparr>Prefix = '''', Pattern = '''', Ignore = True\<rparr>"
proof -
  have h: "''linux'' \<noteq> ''windows''"
    by simp
  from NextDeviceInfo_unix [OF h] h show ?thesis
    by (simp add: NextDeviceInfo_def)
qed

end
